theory Spec2Isabelle
  imports Complex_Main
begin

section \<open>Numbers\<close>

text \<open>
  The program computes with JavaScript numbers. The specification types every amount as
  a real number, and so does this development: a finite number is a \<^typ>\<open>real\<close>, computed
  exactly. The rounding error of IEEE doubles and the infinities are outside this model.
  \<open>NaN\<close> is kept as a value of its own, because the request handlers produce it from a
  quantity that is not a numeric literal.

  \<open>Math.round\<close> rounds a half towards plus infinity, \<open>Math.round x = \<lfloor>x + 1/2\<rfloor>\<close>, which
  is \<^const>\<open>round\<close> of HOL. The operator \<open>%\<close> takes the sign of its dividend.
\<close>

datatype number = NaN | Num real

definition js_rem :: "int \<Rightarrow> int \<Rightarrow> int" where
  "js_rem a b = sgn a * (\<bar>a\<bar> mod \<bar>b\<bar>)"

section \<open>UnitConverter\<close>

text \<open>
  \<open>normalizeWeight\<close>, \<open>normalizePrice\<close> and \<open>preciseRound\<close> are the same text in
  \<open>revamp/code-refactor.js\<close> (module functions) and in the TypeScript listing of the
  README (static methods of \<open>UnitConverter\<close>).
\<close>

definition normalizeWeight :: "real \<Rightarrow> string \<Rightarrow> real" where
  "normalizeWeight value unit = (if unit = ''g'' then value / 1000 else value)"

definition normalizePrice :: "real \<Rightarrow> string \<Rightarrow> real" where
  "normalizePrice price unit = (if unit = ''g'' then price * 1000 else price)"

definition preciseRound :: "real \<Rightarrow> real" where
  "preciseRound value =
     (let cents = round (value * 100);
          lastDigit = js_rem cents 10
      in if lastDigit \<ge> 1 \<and> lastDigit \<le> 2 then
           real_of_int \<lfloor>real_of_int cents / 10\<rfloor> / 10
         else if lastDigit \<ge> 3 \<and> lastDigit \<le> 4 then
           (real_of_int \<lfloor>real_of_int cents / 10\<rfloor> + 0.5) / 10
         else if lastDigit \<ge> 6 \<and> lastDigit \<le> 7 then
           (real_of_int \<lfloor>real_of_int cents / 10\<rfloor> + 0.5) / 10
         else if lastDigit \<ge> 8 \<and> lastDigit \<le> 9 then
           (real_of_int \<lfloor>real_of_int cents / 10\<rfloor> + 1) / 10
         else real_of_int cents / 100)"

text \<open>
  An amount is a multiple of five cents when twenty times the amount is an integer.
  \<open>snapped\<close> holds of the last digits that no branch of \<open>preciseRound\<close> moves.
\<close>

definition multiple_of_5_cents :: "real \<Rightarrow> bool" where
  "multiple_of_5_cents r \<longleftrightarrow> real_of_int \<lfloor>r * 20\<rfloor> = r * 20"


section \<open>Built-in operations of the language\<close>

text \<open>
  The handlers use \<open>String.prototype.split\<close>, array destructuring, \<open>Number\<close>, \<open>parseInt\<close>,
  \<open>Array.prototype.reduce\<close> and \<open>map\<close>, and property access. This section models them as
  ECMAScript defines them, on strings of 8-bit characters. A callback that throws ends
  \<open>reduce\<close> and \<open>map\<close> at once; the only exception on these paths is the \<open>TypeError\<close> of
  reading a property of \<open>undefined\<close>.
\<close>

datatype error = TypeError

fun split :: "char \<Rightarrow> string \<Rightarrow> string list" where
  "split sep [] = [[]]"
| "split sep (c # cs) =
     (if c = sep then [] # split sep cs
      else (case split sep cs of [] \<Rightarrow> [[c]] | w # ws \<Rightarrow> (c # w) # ws))"

text \<open>
  \<open>element xs n\<close> is \<open>xs[n]\<close>, also through a destructuring pattern: \<open>None\<close> stands for
  \<open>undefined\<close>, the value of an element that is not there.
\<close>

definition element :: "'a list \<Rightarrow> nat \<Rightarrow> 'a option" where
  "element xs n = (if n < length xs then Some (xs ! n) else None)"

fun reduce :: "('b \<Rightarrow> 'a \<Rightarrow> error + 'b) \<Rightarrow> 'b \<Rightarrow> 'a list \<Rightarrow> error + 'b" where
  "reduce f acc [] = Inr acc"
| "reduce f acc (x # xs) = (case f acc x of Inl e \<Rightarrow> Inl e | Inr acc' \<Rightarrow> reduce f acc' xs)"

fun map_array :: "('a \<Rightarrow> error + 'b) \<Rightarrow> 'a list \<Rightarrow> error + 'b list" where
  "map_array f [] = Inr []"
| "map_array f (x # xs) =
     (case f x of
        Inl e \<Rightarrow> Inl e
      | Inr y \<Rightarrow> (case map_array f xs of Inl e \<Rightarrow> Inl e | Inr ys \<Rightarrow> Inr (y # ys)))"

subsection \<open>Numerals\<close>

text \<open>
  \<open>digit_of\<close> reads a digit of any radix up to 36. \<open>digits_value\<close> is the value of a digit
  string in a radix; it is only applied to strings of digits of that radix.
\<close>

definition digit_of :: "char \<Rightarrow> nat option" where
  "digit_of c =
     (let n = of_char c :: nat in
      if 48 \<le> n \<and> n \<le> 57 then Some (n - 48)
      else if 97 \<le> n \<and> n \<le> 122 then Some (n - 87)
      else if 65 \<le> n \<and> n \<le> 90 then Some (n - 55)
      else None)"

definition is_digit :: "nat \<Rightarrow> char \<Rightarrow> bool" where
  "is_digit radix c = (case digit_of c of None \<Rightarrow> False | Some d \<Rightarrow> d < radix)"

definition digits_value :: "nat \<Rightarrow> string \<Rightarrow> nat" where
  "digits_value radix ds =
     foldl (\<lambda>a c. radix * a + (case digit_of c of None \<Rightarrow> 0 | Some d \<Rightarrow> d)) 0 ds"

definition is_white_space :: "char \<Rightarrow> bool" where
  "is_white_space c \<longleftrightarrow>
     c \<in> {CHR 0x09, CHR 0x0A, CHR 0x0B, CHR 0x0C, CHR 0x0D, CHR 0x20, CHR 0xA0}"

definition trim_start :: "string \<Rightarrow> string" where
  "trim_start s = dropWhile is_white_space s"

definition trim :: "string \<Rightarrow> string" where
  "trim s = rev (trim_start (rev (trim_start s)))"

text \<open>
  \<open>NumberToString\<close> of an integer: its decimal digits, after a minus sign when it is
  negative. (The exponent notation of integers from \<open>10^21\<close> on belongs to the doubles
  and is outside this model.)
\<close>

function show_nat :: "nat \<Rightarrow> string" where
  "show_nat n =
     (if n < 10 then [''0123456789'' ! n]
      else show_nat (n div 10) @ [''0123456789'' ! (n mod 10)])"
  by pat_completeness auto
termination
  by (relation "measure (\<lambda>n. n)") auto

definition NumberToString :: "int \<Rightarrow> string" where
  "NumberToString i = (if i < 0 then CHR ''-'' # show_nat (nat (- i)) else show_nat (nat i))"

text \<open>
  \<open>StringToNumber\<close>, the conversion that \<open>Number\<close> applies to a string: white space is
  trimmed, the empty string is 0, and the rest is a signed decimal literal (digits, an
  optional fraction, an optional exponent) or an unsigned literal with a prefix \<open>0x\<close>, \<open>0o\<close>
  or \<open>0b\<close>; anything else is \<open>NaN\<close>. The literal \<open>Infinity\<close> has no value in this model
  and is read as \<open>NaN\<close> here.
\<close>

definition exponent_part :: "string \<Rightarrow> int option" where
  "exponent_part s =
     (case s of
        [] \<Rightarrow> Some 0
      | c # r \<Rightarrow>
          if c = CHR ''e'' \<or> c = CHR ''E'' then
            (let neg = (r \<noteq> [] \<and> hd r = CHR ''-'');
                 ds = (if r \<noteq> [] \<and> (hd r = CHR ''-'' \<or> hd r = CHR ''+'') then tl r else r)
             in if ds \<noteq> [] \<and> list_all (is_digit 10) ds then
                  Some (if neg then - int (digits_value 10 ds) else int (digits_value 10 ds))
                else None)
          else None)"

definition unsigned_decimal :: "string \<Rightarrow> real option" where
  "unsigned_decimal s =
     (let ip = takeWhile (is_digit 10) s;
          r = dropWhile (is_digit 10) s;
          has_dot = (r \<noteq> [] \<and> hd r = CHR ''.'');
          fp = (if has_dot then takeWhile (is_digit 10) (tl r) else []);
          rest = (if has_dot then dropWhile (is_digit 10) (tl r) else r)
      in if ip = [] \<and> fp = [] then None
         else (case exponent_part rest of
                 None \<Rightarrow> None
               | Some e \<Rightarrow>
                   Some ((real (digits_value 10 ip) + real (digits_value 10 fp) / 10 ^ length fp)
                         * (if 0 \<le> e then 10 ^ nat e else 1 / 10 ^ nat (- e)))))"

definition non_decimal :: "string \<Rightarrow> real option" where
  "non_decimal s =
     (let radix = (if take 2 s = ''0x'' \<or> take 2 s = ''0X'' then 16
                   else if take 2 s = ''0o'' \<or> take 2 s = ''0O'' then 8
                   else if take 2 s = ''0b'' \<or> take 2 s = ''0B'' then 2
                   else 0);
          ds = drop 2 s
      in if radix \<noteq> 0 \<and> ds \<noteq> [] \<and> list_all (is_digit radix) ds
         then Some (real (digits_value radix ds)) else None)"

definition StringToNumber :: "string \<Rightarrow> number" where
  "StringToNumber s =
     (let t = trim s;
          neg = (t \<noteq> [] \<and> hd t = CHR ''-'');
          u = (if t \<noteq> [] \<and> (hd t = CHR ''-'' \<or> hd t = CHR ''+'') then tl t else t)
      in if t = [] then Num 0
         else (case non_decimal t of
                 Some r \<Rightarrow> Num r
               | None \<Rightarrow>
                   (case unsigned_decimal u of
                      None \<Rightarrow> NaN
                    | Some r \<Rightarrow> Num (if neg then - r else r))))"

text \<open>\<open>Number\<close> of a string that may be \<open>undefined\<close>: \<open>Number(undefined)\<close> is \<open>NaN\<close>.\<close>

definition Number :: "string option \<Rightarrow> number" where
  "Number x = (case x of None \<Rightarrow> NaN | Some s \<Rightarrow> StringToNumber s)"

text \<open>
  \<open>parseInt\<close> with no radix: leading white space and a sign are dropped, a prefix \<open>0x\<close>
  selects radix 16, and the longest prefix of digits is read; what follows the digits is
  ignored. \<open>None\<close> stands for \<open>NaN\<close>, the result when there is no digit. \<open>parseInt\<close> of
  \<open>undefined\<close> reads the string \<open>undefined\<close>, which starts with no digit.
\<close>

definition parseInt :: "string option \<Rightarrow> int option" where
  "parseInt x =
     (case x of
        None \<Rightarrow> None
      | Some s \<Rightarrow>
          (let t = trim_start s;
               neg = (t \<noteq> [] \<and> hd t = CHR ''-'');
               u = (if t \<noteq> [] \<and> (hd t = CHR ''-'' \<or> hd t = CHR ''+'') then tl t else t);
               radix = (if take 2 u = ''0x'' \<or> take 2 u = ''0X'' then 16 else 10);
               z = takeWhile (is_digit radix) (if radix = 16 then drop 2 u else u)
           in if z = [] then None
              else Some (if neg then - int (digits_value radix z) else int (digits_value radix z))))"

text \<open>
  Arithmetic on numbers: \<open>NaN\<close> is absorbing for \<open>+\<close>, \<open>*\<close> and \<open>/\<close>. In \<open>preciseRound\<close>,
  \<open>Math.round\<close> and \<open>%\<close> keep a \<open>NaN\<close>, every comparison with it is false, and the last
  line returns \<open>NaN / 100\<close>.
\<close>

fun num_add :: "number \<Rightarrow> number \<Rightarrow> number" where
  "num_add (Num a) (Num b) = Num (a + b)"
| "num_add _ _ = NaN"

fun num_mul :: "number \<Rightarrow> number \<Rightarrow> number" where
  "num_mul (Num a) (Num b) = Num (a * b)"
| "num_mul _ _ = NaN"

fun preciseRound_number :: "number \<Rightarrow> number" where
  "preciseRound_number (Num v) = Num (preciseRound v)"
| "preciseRound_number NaN = NaN"

text \<open>
  The untyped call \<open>normalizeWeight(Number(quantity), unit)\<close> can pass \<open>NaN\<close> and an
  \<open>undefined\<close> unit: \<open>NaN / 1000\<close> and \<open>NaN\<close> are both \<open>NaN\<close>, and \<open>undefined === "g"\<close> is false.
\<close>

definition normalizeWeight_number :: "number \<Rightarrow> string option \<Rightarrow> number" where
  "normalizeWeight_number value unit =
     (case value of
        NaN \<Rightarrow> NaN
      | Num v \<Rightarrow> Num (case unit of None \<Rightarrow> v | Some u \<Rightarrow> normalizeWeight v u))"

section \<open>Catalog\<close>

record Item =
  id' :: int
  name :: string
  unitPrice :: real
  unit :: string

text \<open>The nineteen items that both listings store at startup.\<close>

definition catalogItems :: "Item list" where
  "catalogItems =
     [\<lparr>id' = 1, name = ''item1'', unitPrice = 1.45, unit = ''kg''\<rparr>,
      \<lparr>id' = 2, name = ''item2'', unitPrice = 1.23, unit = ''kg''\<rparr>,
      \<lparr>id' = 3, name = ''item3'', unitPrice = 2.35, unit = ''g''\<rparr>,
      \<lparr>id' = 4, name = ''item4'', unitPrice = 4.56, unit = ''kg''\<rparr>,
      \<lparr>id' = 5, name = ''item5'', unitPrice = 1.34, unit = ''kg''\<rparr>,
      \<lparr>id' = 6, name = ''item6'', unitPrice = 5.67, unit = ''kg''\<rparr>,
      \<lparr>id' = 7, name = ''item7'', unitPrice = 2.34, unit = ''g''\<rparr>,
      \<lparr>id' = 8, name = ''item8'', unitPrice = 3.45, unit = ''kg''\<rparr>,
      \<lparr>id' = 9, name = ''item9'', unitPrice = 9.1, unit = ''kg''\<rparr>,
      \<lparr>id' = 10, name = ''item10'', unitPrice = 1, unit = ''g''\<rparr>,
      \<lparr>id' = 11, name = ''item11'', unitPrice = 2.13, unit = ''g''\<rparr>,
      \<lparr>id' = 12, name = ''item12'', unitPrice = 2.64, unit = ''kg''\<rparr>,
      \<lparr>id' = 13, name = ''item13'', unitPrice = 2.85, unit = ''kg''\<rparr>,
      \<lparr>id' = 14, name = ''item14'', unitPrice = 2.71, unit = ''kg''\<rparr>,
      \<lparr>id' = 15, name = ''item15'', unitPrice = 1.49, unit = ''kg''\<rparr>,
      \<lparr>id' = 16, name = ''item16'', unitPrice = 1.78, unit = ''g''\<rparr>,
      \<lparr>id' = 17, name = ''item17'', unitPrice = 1.59, unit = ''kg''\<rparr>,
      \<lparr>id' = 18, name = ''item18'', unitPrice = 3.55, unit = ''g''\<rparr>,
      \<lparr>id' = 19, name = ''item19'', unitPrice = 4.05, unit = ''kg''\<rparr>]"

subsection \<open>The plain object of \<open>revamp/code-refactor.js\<close>\<close>

text \<open>
  \<open>database.items\<close> is an object: its keys are strings, and \<open>Object.fromEntries\<close> turns
  each \<open>item.id\<close> into its string and lets a later entry overwrite an earlier one.
  \<open>createDatabase\<close> builds it from the literal list; \<open>createDatabase_of\<close> is the same
  function with the list as a parameter. Only the object's own properties are modelled:
  a key such as \<open>constructor\<close>, which JavaScript finds on \<open>Object.prototype\<close>, is absent here.
\<close>

type_synonym Database = "string \<rightharpoonup> Item"

definition fromEntries :: "(string \<times> 'a) list \<Rightarrow> (string \<rightharpoonup> 'a)" where
  "fromEntries entries = foldl (\<lambda>obj (k, v). obj(k \<mapsto> v)) Map.empty entries"

definition createDatabase_of :: "Item list \<Rightarrow> Database" where
  "createDatabase_of items = fromEntries (map (\<lambda>item. (NumberToString (id' item), item)) items)"

definition createDatabase :: Database where
  "createDatabase = createDatabase_of catalogItems"

text \<open>A property key that may be \<open>undefined\<close>: \<open>obj[undefined]\<close> reads the key \<open>undefined\<close>.\<close>

definition property_key :: "string option \<Rightarrow> string" where
  "property_key x = (case x of None \<Rightarrow> ''undefined'' | Some s \<Rightarrow> s)"

subsection \<open>The \<open>DatabaseManager\<close> of the TypeScript listing\<close>

text \<open>
  The private \<open>Map<number, Item>\<close>. \<open>getItem\<close> is applied to the result of \<open>parseInt\<close>, which
  can be \<open>NaN\<close>; no item is stored under \<open>NaN\<close>.
\<close>

type_synonym DatabaseManager = "int \<rightharpoonup> Item"

definition new_DatabaseManager :: DatabaseManager where
  "new_DatabaseManager = Map.empty"

definition addItem :: "DatabaseManager \<Rightarrow> Item \<Rightarrow> DatabaseManager" where
  "addItem this item = this(id' item \<mapsto> item)"

definition getItem :: "DatabaseManager \<Rightarrow> int option \<Rightarrow> Item option" where
  "getItem this = (\<lambda>id. case id of None \<Rightarrow> None | Some i \<Rightarrow> this i)"

definition bulkAdd :: "DatabaseManager \<Rightarrow> Item list \<Rightarrow> DatabaseManager" where
  "bulkAdd this items = foldl addItem this items"

section \<open>The request handlers\<close>

record QueryRow =
  itemId :: number
  kgPrice :: real

record LargeData =
  action :: string
  datas :: string

datatype result = Total number | Rows "QueryRow list" | Undefined

subsection \<open>\<open>revamp/code-refactor.js\<close>\<close>

text \<open>
  The module-level constant \<open>database\<close> is a parameter of the handlers here; the module
  binds it to \<open>createDatabase()\<close>.
\<close>

text \<open>The callback of \<open>reduce\<close> in \<open>handleCalculate\<close>, and \<open>handleCalculate\<close>.\<close>

definition handleCalculate_line :: "Database \<Rightarrow> number \<Rightarrow> string list \<Rightarrow> error + number" where
  "handleCalculate_line database = (\<lambda>sum fields.
     let id = element fields 0; quantity = element fields 1; unit' = element fields 2
     in case database (property_key id) of
          None \<Rightarrow> Inl TypeError
        | Some item \<Rightarrow>
            let normalizedQuantity = normalizeWeight_number (Number quantity) unit';
                normalizedPrice = normalizePrice (unitPrice item) (unit item)
            in Inr (num_add sum (num_mul (Num normalizedPrice) normalizedQuantity)))"

definition handleCalculate :: "Database \<Rightarrow> string \<Rightarrow> error + number" where
  "handleCalculate database datasString =
     (let items = map (split CHR '','') (split CHR '';'' datasString)
      in case reduce (handleCalculate_line database) (Num 0) items of
           Inl e \<Rightarrow> Inl e
         | Inr totalPrice \<Rightarrow> Inr (preciseRound_number totalPrice))"

text \<open>The callback of \<open>map\<close> in \<open>handleQuery\<close>, and \<open>handleQuery\<close>.\<close>

definition handleQuery_row :: "Database \<Rightarrow> string \<Rightarrow> error + QueryRow" where
  "handleQuery_row database = (\<lambda>id.
     case database id of
       None \<Rightarrow> Inl TypeError
     | Some item \<Rightarrow>
         Inr \<lparr>itemId = Number (Some id),
              kgPrice = normalizePrice (unitPrice item) (unit item)\<rparr>)"

definition handleQuery :: "Database \<Rightarrow> string \<Rightarrow> error + QueryRow list" where
  "handleQuery database datasString =
     (let ids = split CHR '','' datasString
      in map_array (handleQuery_row database) ids)"

definition summaryApi :: "Database \<Rightarrow> LargeData \<Rightarrow> error + result" where
  "summaryApi database largeData =
     (if action largeData = ''calculate'' then
        (case handleCalculate database (datas largeData) of
           Inl e \<Rightarrow> Inl e | Inr price \<Rightarrow> Inr (Total price))
      else if action largeData = ''query'' then
        (case handleQuery database (datas largeData) of
           Inl e \<Rightarrow> Inl e | Inr rows \<Rightarrow> Inr (Rows rows))
      else Inr Undefined)"

subsection \<open>The class \<open>SummaryAPI\<close> of the TypeScript listing\<close>

text \<open>
  The non-null assertion \<open>item!\<close> is erased by the compiler: reading \<open>unitPrice\<close> of an item
  that \<open>getItem\<close> did not find throws the same \<open>TypeError\<close>. \<open>calculate_line\<close> and
  \<open>query_row\<close> are the callbacks of \<open>reduce\<close> in \<open>calculate\<close> and of the last \<open>map\<close> in \<open>query\<close>.
\<close>

definition calculate_line :: "DatabaseManager \<Rightarrow> number \<Rightarrow> string list \<Rightarrow> error + number" where
  "calculate_line database = (\<lambda>sum fields.
     let id = element fields 0; quantity = element fields 1; unit' = element fields 2
     in case getItem database (parseInt id) of
          None \<Rightarrow> Inl TypeError
        | Some item \<Rightarrow>
            let normalizedQuantity = normalizeWeight_number (Number quantity) unit';
                normalizedPrice = normalizePrice (unitPrice item) (unit item)
            in Inr (num_add sum (num_mul (Num normalizedPrice) normalizedQuantity)))"

definition calculate :: "DatabaseManager \<Rightarrow> string \<Rightarrow> error + number" where
  "calculate database datasString =
     (let items = map (split CHR '','') (split CHR '';'' datasString)
      in case reduce (calculate_line database) (Num 0) items of
           Inl e \<Rightarrow> Inl e
         | Inr totalPrice \<Rightarrow> Inr (preciseRound_number totalPrice))"

definition query_row :: "Item option \<Rightarrow> error + QueryRow" where
  "query_row item =
     (case item of
        None \<Rightarrow> Inl TypeError
      | Some item \<Rightarrow>
          Inr \<lparr>itemId = Num (real_of_int (id' item)),
               kgPrice = normalizePrice (unitPrice item) (unit item)\<rparr>)"

definition query :: "DatabaseManager \<Rightarrow> string \<Rightarrow> error + QueryRow list" where
  "query database datasString =
     (let ids = map (\<lambda>id. parseInt (Some id)) (split CHR '','' datasString);
          items = map (\<lambda>id. getItem database id) ids
      in map_array query_row items)"

definition process :: "DatabaseManager \<Rightarrow> LargeData \<Rightarrow> error + result" where
  "process database largeData =
     (if action largeData = ''calculate'' then
        (case calculate database (datas largeData) of
           Inl e \<Rightarrow> Inl e | Inr price \<Rightarrow> Inr (Total price))
      else if action largeData = ''query'' then
        (case query database (datas largeData) of
           Inl e \<Rightarrow> Inl e | Inr rows \<Rightarrow> Inr (Rows rows))
      else Inr Undefined)"

section \<open>The request grammar\<close>

text \<open>
  A request is a sequence of line entries or of item ids, and the \<open>datas\<close> string is its
  encoding: entries joined with \<open>;\<close>, the fields of an entry and the ids of a query joined
  with \<open>,\<close>. An id is written as the language prints the number. A line entry carries the
  literal of its quantity together with the real number the literal denotes.
\<close>

fun join :: "char \<Rightarrow> string list \<Rightarrow> string" where
  "join sep [] = []"
| "join sep [w] = w"
| "join sep (w # w' # ws) = w @ sep # join sep (w' # ws)"

record LineEntry =
  entry_id :: int
  quantity_text :: string
  quantity :: real
  entry_unit :: string

definition entry_fields :: "LineEntry \<Rightarrow> string list" where
  "entry_fields e = [NumberToString (entry_id e), quantity_text e, entry_unit e]"

definition encode_calculate :: "LineEntry list \<Rightarrow> string" where
  "encode_calculate es = join CHR '';'' (map (\<lambda>e. join CHR '','' (entry_fields e)) es)"

definition encode_query :: "int list \<Rightarrow> string" where
  "encode_query ids = join CHR '','' (map NumberToString ids)"

text \<open>
  A well-formed entry: the unit is \<open>kg\<close> or \<open>g\<close>, and the quantity is a literal without a
  separator that \<open>Number\<close> reads as the entry's quantity.
\<close>

definition well_formed_entry :: "LineEntry \<Rightarrow> bool" where
  "well_formed_entry e \<longleftrightarrow>
     entry_unit e \<in> {''kg'', ''g''} \<and>
     StringToNumber (quantity_text e) = Num (quantity e) \<and>
     CHR '','' \<notin> set (quantity_text e) \<and> CHR '';'' \<notin> set (quantity_text e)"

text \<open>
  The price of a line, given the item of the entry, and the total of a request before
  rounding: the lines added up from 0 in the order of the request. \<open>lookup\<close> is the
  catalog, from id to item if there is one.
\<close>

definition line_price :: "Item \<Rightarrow> LineEntry \<Rightarrow> real" where
  "line_price item e =
     normalizePrice (unitPrice item) (unit item) * normalizeWeight (quantity e) (entry_unit e)"

definition request_total :: "(int \<rightharpoonup> Item) \<Rightarrow> LineEntry list \<Rightarrow> real" where
  "request_total lookup es = foldl (\<lambda>sum e. sum + line_price (the (lookup (entry_id e))) e) 0 es"

definition price_row :: "Item \<Rightarrow> QueryRow" where
  "price_row item =
     \<lparr>itemId = Num (real_of_int (id' item)),
      kgPrice = normalizePrice (unitPrice item) (unit item)\<rparr>"

text \<open>The catalog of the plain object, read by id: \<open>database.items[i]\<close> for a number \<open>i\<close>.\<close>

definition items_by_id :: "Database \<Rightarrow> (int \<rightharpoonup> Item)" where
  "items_by_id database = (\<lambda>i. database (NumberToString i))"

text \<open>
  A request in its envelope. \<open>Other\<close> is an envelope with any other action and any
  payload. A request is well formed for a catalog when it is not empty, its entries are
  well formed, and the catalog has an item for every id.
\<close>

datatype request = Calculate "LineEntry list" | Query "int list" | Other string string

fun envelope :: "request \<Rightarrow> LargeData" where
  "envelope (Calculate es) = \<lparr>action = ''calculate'', datas = encode_calculate es\<rparr>"
| "envelope (Query ids) = \<lparr>action = ''query'', datas = encode_query ids\<rparr>"
| "envelope (Other a d) = \<lparr>action = a, datas = d\<rparr>"

fun well_formed_request :: "(int \<rightharpoonup> Item) \<Rightarrow> request \<Rightarrow> bool" where
  "well_formed_request catalog (Calculate es) \<longleftrightarrow>
     es \<noteq> [] \<and> list_all (\<lambda>e. well_formed_entry e \<and> catalog (entry_id e) \<noteq> None) es"
| "well_formed_request catalog (Query ids) \<longleftrightarrow>
     ids \<noteq> [] \<and> list_all (\<lambda>i. catalog i \<noteq> None) ids"
| "well_formed_request catalog (Other a d) \<longleftrightarrow> a \<noteq> ''calculate'' \<and> a \<noteq> ''query''"

section \<open>Properties of the unit conversions\<close>

text \<open>
  Claim C10. For every value \<open>v\<close>, price \<open>p\<close> and unit string \<open>u\<close> other than \<open>g\<close>, also one
  that is neither \<open>kg\<close> nor \<open>g\<close>, \<open>normalizeWeight v u = v\<close> and \<open>normalizePrice p u = p\<close>. Both
  functions are total: no unit makes them fail.
\<close>

theorem unit_other_than_g_is_kilograms:
  "u \<noteq> ''g'' \<Longrightarrow> normalizeWeight v u = v \<and> normalizePrice p u = p"
  by (simp add: normalizeWeight_def normalizePrice_def)

theorem unit_other_than_g_is_kilograms_witness:
  "normalizeWeight 2500 ''lb'' = 2500 \<and> normalizePrice 2.35 ''lb'' = 2.35 \<and>
   normalizeWeight 2500 '''' = 2500 \<and> normalizePrice 2.35 '''' = 2.35"
  using unit_other_than_g_is_kilograms [of "''lb''" 2500 "2.35"]
    unit_other_than_g_is_kilograms [of "''''" 2500 "2.35"]
  by simp

section \<open>Properties of \<open>preciseRound\<close>\<close>

subsection \<open>The remainder and the floor of a tenth\<close>

lemma multiple_of_5_cents_iff:
  "multiple_of_5_cents r \<longleftrightarrow> (\<exists>k::int. r = real_of_int k * 0.05)"
proof
  assume "multiple_of_5_cents r"
  then have h: "real_of_int \<lfloor>r * 20\<rfloor> = r * 20"
    by (simp only: multiple_of_5_cents_def)
  have "r = real_of_int \<lfloor>r * 20\<rfloor> * 0.05"
    unfolding h by simp
  then show "\<exists>k::int. r = real_of_int k * 0.05" ..
next
  assume "\<exists>k::int. r = real_of_int k * 0.05"
  then obtain k :: int where "r = real_of_int k * 0.05" ..
  then have k: "r * 20 = real_of_int k" by simp
  show "multiple_of_5_cents r"
    unfolding multiple_of_5_cents_def k by simp
qed


lemma js_rem_nonpos: "c \<le> 0 \<Longrightarrow> js_rem c 10 \<le> 0"
  by (simp add: js_rem_def sgn_if mult_le_0_iff)






subsection \<open>The rounding table\<close>

text \<open>
  Claim C1. For every real \<open>v\<close>, with \<open>cents = round (v * 100)\<close> and \<open>lastDigit\<close> the
  remainder of \<open>cents\<close> by 10 as the language computes it, \<open>preciseRound v\<close> is
  \<open>floor (cents / 10) / 10\<close> when \<open>lastDigit\<close> is 1 or 2, \<open>(floor (cents / 10) + 0.5) / 10\<close> when
  it is 3, 4, 6 or 7, \<open>(floor (cents / 10) + 1) / 10\<close> when it is 8 or 9, and \<open>cents / 100\<close>
  when it is 0 or 5.
\<close>

theorem preciseRound_by_last_digit:
  fixes v :: real
  defines "cents \<equiv> round (v * 100)"
  defines "lastDigit \<equiv> js_rem cents 10"
  shows "(lastDigit \<in> {1, 2} \<longrightarrow>
            preciseRound v = real_of_int \<lfloor>real_of_int cents / 10\<rfloor> / 10) \<and>
         (lastDigit \<in> {3, 4, 6, 7} \<longrightarrow>
            preciseRound v = (real_of_int \<lfloor>real_of_int cents / 10\<rfloor> + 0.5) / 10) \<and>
         (lastDigit \<in> {8, 9} \<longrightarrow>
            preciseRound v = (real_of_int \<lfloor>real_of_int cents / 10\<rfloor> + 1) / 10) \<and>
         (lastDigit \<in> {0, 5} \<longrightarrow>
            preciseRound v = real_of_int cents / 100)"
  unfolding preciseRound_def Let_def cents_def lastDigit_def by auto

theorem preciseRound_by_last_digit_witness:
  "preciseRound 1.21 = 1.2 \<and> preciseRound 1.24 = 1.25 \<and> preciseRound 1.27 = 1.25 \<and>
   preciseRound 1.28 = 1.3 \<and> preciseRound 1.25 = 1.25 \<and> preciseRound 1.2 = 1.2"
  using preciseRound_by_last_digit [of "1.21"] preciseRound_by_last_digit [of "1.24"]
    preciseRound_by_last_digit [of "1.27"] preciseRound_by_last_digit [of "1.28"]
    preciseRound_by_last_digit [of "1.25"] preciseRound_by_last_digit [of "1.2"]
  by (simp add: js_rem_def round_def)

subsection \<open>Amounts of zero cents or less\<close>

text \<open>
  Claim C9. For every real \<open>x\<close> with \<open>round (x * 100) \<le> 0\<close>, \<open>preciseRound x\<close> is
  \<open>round (x * 100) / 100\<close>: the remainder of a non-positive number of cents is not
  positive, so none of the four rounding branches is taken.
\<close>

theorem preciseRound_nonpositive_cents:
  "round (x * 100) \<le> 0 \<Longrightarrow> preciseRound x = real_of_int (round (x * 100)) / 100"
  using js_rem_nonpos [of "round (x * 100)"] unfolding preciseRound_def Let_def by simp

theorem preciseRound_nonpositive_cents_witness:
  "round (- 0.13 * 100 :: real) \<le> 0 \<and> preciseRound (- 0.13) = - 0.13 \<and>
   round (- 0.18 * 100 :: real) \<le> 0 \<and> preciseRound (- 0.18) = - 0.18"
  using preciseRound_nonpositive_cents [of "- 0.13"] preciseRound_nonpositive_cents [of "- 0.18"]
  by (simp add: round_def)

subsection \<open>Idempotence\<close>



subsection \<open>Multiples of five cents\<close>




section \<open>Properties of the built-in operations\<close>

subsection \<open>Splitting what was joined\<close>

lemma split_not_Nil: "split sep s \<noteq> []"
  by (induction s) (auto split: list.splits)

lemma split_no_sep: "sep \<notin> set w \<Longrightarrow> split sep w = [w]"
  by (induction w) auto

lemma split_append_sep:
  "sep \<notin> set w \<Longrightarrow> split sep (w @ sep # s) = w # split sep s"
  by (induction w) auto

lemma split_join:
  "ws \<noteq> [] \<Longrightarrow> \<forall>w \<in> set ws. sep \<notin> set w \<Longrightarrow> split sep (join sep ws) = ws"
proof (induction sep ws rule: join.induct)
  case (1 sep)
  then show ?case by simp
next
  case (2 sep w)
  then show ?case by (simp add: split_no_sep)
next
  case (3 sep w w' ws)
  then show ?case by (simp add: split_append_sep)
qed

lemma set_join: "set (join sep ws) \<subseteq> insert sep (\<Union>w \<in> set ws. set w)"
  by (induction sep ws rule: join.induct) auto

subsection \<open>Digits\<close>

lemma digit_of_decimal: "d < 10 \<Longrightarrow> digit_of (''0123456789'' ! d) = Some d"
  by (auto simp add: digit_of_def less_Suc_eq numeral_eq_Suc)

lemma is_digit_decimal: "d < 10 \<Longrightarrow> is_digit 10 (''0123456789'' ! d)"
  by (simp add: is_digit_def digit_of_decimal)

lemma digits_value_snoc:
  "digits_value r (ds @ [c]) = r * digits_value r ds + (case digit_of c of None \<Rightarrow> 0 | Some d \<Rightarrow> d)"
  by (simp add: digits_value_def)

declare show_nat.simps [simp del]

lemma show_nat_digits: "list_all (is_digit 10) (show_nat n)"
proof (induction n rule: show_nat.induct)
  case (1 n)
  show ?case
  proof (cases "n < 10")
    case True
    then show ?thesis by (subst show_nat.simps) (simp add: is_digit_decimal)
  next
    case False
    then show ?thesis using 1 by (subst show_nat.simps) (simp add: is_digit_decimal)
  qed
qed

lemma show_nat_not_Nil: "show_nat n \<noteq> []"
  by (subst show_nat.simps) simp

lemma show_nat_value: "digits_value 10 (show_nat n) = n"
proof (induction n rule: show_nat.induct)
  case (1 n)
  show ?case
  proof (cases "n < 10")
    case True
    then show ?thesis
      by (subst show_nat.simps) (simp add: digits_value_def digit_of_decimal)
  next
    case False
    then have "digits_value 10 (show_nat (n div 10)) = n div 10" using 1 by simp
    then show ?thesis
      using False by (subst show_nat.simps) (simp add: digits_value_snoc digit_of_decimal)
  qed
qed

lemma not_digit_chars:
  "\<not> is_digit 10 CHR '',''" "\<not> is_digit 10 CHR '';''" "\<not> is_digit 10 CHR ''-''"
  "\<not> is_digit 10 CHR ''+''" "\<not> is_digit 10 CHR ''x''" "\<not> is_digit 10 CHR ''X''"
  "\<not> is_digit 10 CHR ''o''" "\<not> is_digit 10 CHR ''O''" "\<not> is_digit 10 CHR ''b''"
  "\<not> is_digit 10 CHR ''B''" "\<not> is_digit 10 CHR ''.''"
  by (simp_all add: is_digit_def digit_of_def)

lemma digit_not_white_space: "is_digit r c \<Longrightarrow> \<not> is_white_space c"
  by (auto simp add: is_digit_def digit_of_def is_white_space_def split: if_splits)

subsection \<open>Reading a printed integer\<close>

lemma show_nat_hd: "is_digit 10 (hd (show_nat n))"
  using show_nat_digits [of n] show_nat_not_Nil [of n]
  by (cases "show_nat n") simp_all

lemma show_nat_last: "is_digit 10 (last (show_nat n))"
  using show_nat_digits [of n] show_nat_not_Nil [of n]
  by (simp add: list_all_iff)

lemma show_nat_no_prefix:
  "c \<in> {CHR ''x'', CHR ''X'', CHR ''o'', CHR ''O'', CHR ''b'', CHR ''B''} \<Longrightarrow>
   take 2 (show_nat n) \<noteq> [CHR ''0'', c]"
proof
  assume c: "c \<in> {CHR ''x'', CHR ''X'', CHR ''o'', CHR ''O'', CHR ''b'', CHR ''B''}"
    and "take 2 (show_nat n) = [CHR ''0'', c]"
  then have "c \<in> set (take 2 (show_nat n))" by simp
  then have "c \<in> set (show_nat n)" by (rule in_set_takeD)
  then have "is_digit 10 c" using show_nat_digits [of n] by (simp add: list_all_iff)
  then show False using c not_digit_chars by auto
qed

lemma takeWhile_all: "list_all P xs \<Longrightarrow> takeWhile P xs = xs"
  by (induction xs) auto

lemma dropWhile_all: "list_all P xs \<Longrightarrow> dropWhile P xs = []"
  by (induction xs) auto

lemma trim_start_show_nat: "trim_start (show_nat n) = show_nat n"
  using show_nat_hd [of n] show_nat_not_Nil [of n]
  by (cases "show_nat n") (auto simp add: trim_start_def digit_not_white_space)

lemma parseInt_show_nat: "parseInt (Some (show_nat n)) = Some (int n)"
proof -
  have hd: "hd (show_nat n) \<noteq> CHR ''-''" "hd (show_nat n) \<noteq> CHR ''+''"
    using show_nat_hd [of n] not_digit_chars by auto
  have px: "take 2 (show_nat n) \<noteq> ''0x''" "take 2 (show_nat n) \<noteq> ''0X''"
    using show_nat_no_prefix [of _ n] by simp_all
  show ?thesis
    unfolding parseInt_def
    by (simp add: trim_start_show_nat hd px Let_def takeWhile_all show_nat_digits
        show_nat_not_Nil show_nat_value)
qed

lemma white_space_not_minus: "\<not> is_white_space CHR ''-''"
  by (simp add: is_white_space_def)

lemma parseInt_show_neg: "parseInt (Some (CHR ''-'' # show_nat n)) = Some (- int n)"
proof -
  have px: "take 2 (show_nat n) \<noteq> ''0x''" "take 2 (show_nat n) \<noteq> ''0X''"
    using show_nat_no_prefix [of _ n] by simp_all
  show ?thesis
    unfolding parseInt_def
    by (simp add: trim_start_def white_space_not_minus px Let_def takeWhile_all show_nat_digits
        show_nat_not_Nil show_nat_value)
qed

lemma parseInt_NumberToString: "parseInt (Some (NumberToString i)) = Some i"
  by (simp add: NumberToString_def parseInt_show_nat parseInt_show_neg)

lemma NumberToString_inject: "NumberToString i = NumberToString j \<longleftrightarrow> i = j"
  by (metis parseInt_NumberToString option.inject)

lemma NumberToString_no_separator:
  "CHR '','' \<notin> set (NumberToString i)" "CHR '';'' \<notin> set (NumberToString i)"
proof -
  have "\<And>n c. c \<in> set (show_nat n) \<Longrightarrow> is_digit 10 c"
    using show_nat_digits by (simp add: list_all_iff)
  then show "CHR '','' \<notin> set (NumberToString i)" "CHR '';'' \<notin> set (NumberToString i)"
    using not_digit_chars by (auto simp add: NumberToString_def)
qed

lemma trim_start_id: "s \<noteq> [] \<Longrightarrow> \<not> is_white_space (hd s) \<Longrightarrow> trim_start s = s"
  by (cases s) (simp_all add: trim_start_def)

lemma trim_id:
  assumes "s \<noteq> []" "\<not> is_white_space (hd s)" "\<not> is_white_space (last s)"
  shows "trim s = s"
proof -
  have "trim_start (rev s) = rev s"
    using assms by (intro trim_start_id) (simp_all add: hd_rev)
  then show ?thesis using assms by (simp add: trim_def trim_start_id)
qed

lemma non_decimal_show_nat: "non_decimal (show_nat n) = None"
  using show_nat_no_prefix [of _ n] by (simp add: non_decimal_def)

lemma non_decimal_minus: "non_decimal (CHR ''-'' # s) = None"
  by (cases s) (simp_all add: non_decimal_def)

lemma digits_value_Nil: "digits_value r [] = 0"
  by (simp add: digits_value_def)

lemma unsigned_decimal_show_nat: "unsigned_decimal (show_nat n) = Some (real n)"
  by (simp add: unsigned_decimal_def Let_def takeWhile_all dropWhile_all show_nat_digits
      show_nat_not_Nil show_nat_value exponent_part_def digits_value_Nil)

lemma StringToNumber_show_nat: "StringToNumber (show_nat n) = Num (real n)"
proof -
  have "trim (show_nat n) = show_nat n"
    using show_nat_hd [of n] show_nat_last [of n] show_nat_not_Nil [of n]
    by (intro trim_id) (simp_all add: digit_not_white_space)
  moreover have "hd (show_nat n) \<noteq> CHR ''-''" "hd (show_nat n) \<noteq> CHR ''+''"
    using show_nat_hd [of n] not_digit_chars by auto
  ultimately show ?thesis
    by (simp add: StringToNumber_def Let_def show_nat_not_Nil non_decimal_show_nat
        unsigned_decimal_show_nat)
qed

lemma StringToNumber_show_neg: "StringToNumber (CHR ''-'' # show_nat n) = Num (- real n)"
proof -
  have "trim (CHR ''-'' # show_nat n) = CHR ''-'' # show_nat n"
    using show_nat_last [of n] show_nat_not_Nil [of n]
    by (intro trim_id) (simp_all add: digit_not_white_space white_space_not_minus)
  then show ?thesis
    by (simp add: StringToNumber_def Let_def non_decimal_minus unsigned_decimal_show_nat)
qed

lemma StringToNumber_NumberToString: "StringToNumber (NumberToString i) = Num (real_of_int i)"
  by (simp add: NumberToString_def StringToNumber_show_nat StringToNumber_show_neg)

subsection \<open>Reading a decimal literal\<close>

text \<open>
  The literals of the request grammar, digits with an optional fraction, are read by
  \<open>Number\<close> as the decimal number they write: each of them can be the quantity of a
  well-formed entry.
\<close>

lemma takeWhile_digits_append:
  "list_all P ds \<Longrightarrow> \<not> P c \<Longrightarrow> takeWhile P (ds @ c # s) = ds"
  by (induction ds) auto

lemma dropWhile_digits_append:
  "list_all P ds \<Longrightarrow> \<not> P c \<Longrightarrow> dropWhile P (ds @ c # s) = c # s"
  by (induction ds) auto

lemma StringToNumber_digits:
  assumes "ds \<noteq> []" "list_all (is_digit 10) ds"
  shows "StringToNumber ds = Num (real (digits_value 10 ds))"
proof -
  have hd: "is_digit 10 (hd ds)" and last: "is_digit 10 (last ds)"
    using assms by (cases ds, simp_all add: list_all_iff)
  have "trim ds = ds"
    using assms(1) hd last by (intro trim_id) (simp_all add: digit_not_white_space)
  moreover have "hd ds \<noteq> CHR ''-''" "hd ds \<noteq> CHR ''+''"
    using hd not_digit_chars by auto
  moreover have "non_decimal ds = None"
  proof -
    have "c \<in> set ds \<Longrightarrow> is_digit 10 c" for c using assms(2) by (simp add: list_all_iff)
    then have "take 2 ds \<noteq> [CHR ''0'', c]"
      if "c \<in> {CHR ''x'', CHR ''X'', CHR ''o'', CHR ''O'', CHR ''b'', CHR ''B''}" for c
      using that not_digit_chars by (metis in_set_takeD insert_iff list.set_intros(1,2) empty_iff)
    then show ?thesis by (simp add: non_decimal_def)
  qed
  moreover have "unsigned_decimal ds = Some (real (digits_value 10 ds))"
    using assms
    by (simp add: unsigned_decimal_def Let_def takeWhile_all dropWhile_all exponent_part_def
        digits_value_Nil)
  ultimately show ?thesis using assms(1) by (simp add: StringToNumber_def Let_def)
qed

lemma StringToNumber_decimal:
  assumes "ds \<noteq> []" "list_all (is_digit 10) ds" "fs \<noteq> []" "list_all (is_digit 10) fs"
  shows "StringToNumber (ds @ CHR ''.'' # fs)
         = Num (real (digits_value 10 ds) + real (digits_value 10 fs) / 10 ^ length fs)"
proof -
  let ?s = "ds @ CHR ''.'' # fs"
  have hd: "is_digit 10 (hd ?s)" using assms(1,2) by (cases ds) simp_all
  have last: "is_digit 10 (last ?s)" using assms(3,4) by (simp add: list_all_iff)
  have "trim ?s = ?s"
    using hd last by (intro trim_id) (simp_all add: digit_not_white_space)
  moreover have "hd ?s \<noteq> CHR ''-''" "hd ?s \<noteq> CHR ''+''"
    using hd not_digit_chars by auto
  moreover have "non_decimal ?s = None"
  proof (cases ds)
    case Nil
    then show ?thesis using assms(1) by simp
  next
    case (Cons d ds')
    then show ?thesis
    proof (cases ds')
      case Nil
      then show ?thesis using \<open>ds = d # ds'\<close> by (simp add: non_decimal_def)
    next
      case (Cons d' ds'')
      then have "is_digit 10 d'" using assms(2) \<open>ds = d # ds'\<close> by simp
      then have "d' \<notin> {CHR ''x'', CHR ''X'', CHR ''o'', CHR ''O'', CHR ''b'', CHR ''B''}"
        using not_digit_chars by auto
      then show ?thesis using Cons \<open>ds = d # ds'\<close> by (simp add: non_decimal_def)
    qed
  qed
  moreover have "unsigned_decimal ?s
      = Some (real (digits_value 10 ds) + real (digits_value 10 fs) / 10 ^ length fs)"
    using assms not_digit_chars(11)
    by (simp add: unsigned_decimal_def Let_def takeWhile_digits_append dropWhile_digits_append
        takeWhile_all dropWhile_all exponent_part_def)
  ultimately show ?thesis by (simp add: StringToNumber_def Let_def)
qed

section \<open>Properties of the catalogs\<close>

text \<open>
  Read by id, the plain object built from a list of items is the \<open>DatabaseManager\<close> built
  from the same list, and every stored item sits under its own id.
\<close>

lemma fold_catalogs_agree:
  assumes "\<And>i. obj (NumberToString i) = this i"
  shows "foldl (\<lambda>obj (k, v). obj(k \<mapsto> v)) obj
           (map (\<lambda>item. (NumberToString (id' item), item)) items) (NumberToString i)
         = foldl addItem this items i"
  using assms
proof (induction items arbitrary: obj this)
  case Nil
  then show ?case by simp
next
  case (Cons item items)
  have "(obj(NumberToString (id' item) \<mapsto> item)) (NumberToString j) = (addItem this item) j" for j
    using Cons.prems by (simp add: addItem_def NumberToString_inject)
  then show ?case using Cons.IH by simp
qed

lemma items_by_id_createDatabase_of:
  "items_by_id (createDatabase_of items) = bulkAdd new_DatabaseManager items"
proof
  fix i
  show "items_by_id (createDatabase_of items) i = bulkAdd new_DatabaseManager items i"
    unfolding items_by_id_def createDatabase_of_def fromEntries_def bulkAdd_def
    by (rule fold_catalogs_agree) (simp add: new_DatabaseManager_def)
qed

lemma fold_addItem_id:
  assumes "\<And>i item. this i = Some item \<Longrightarrow> id' item = i"
    and "foldl addItem this items i = Some item"
  shows "id' item = i"
  using assms
proof (induction items arbitrary: this)
  case Nil
  then show ?case by simp
next
  case (Cons x items)
  have "id' y = j" if "addItem this x j = Some y" for j y
    using that Cons.prems(1) by (auto simp add: addItem_def split: if_splits)
  then show ?case using Cons.IH [of "addItem this x"] Cons.prems(2) by simp
qed

lemma bulkAdd_id: "bulkAdd new_DatabaseManager items i = Some item \<Longrightarrow> id' item = i"
  unfolding bulkAdd_def by (rule fold_addItem_id [of new_DatabaseManager]) (simp_all add: new_DatabaseManager_def)

section \<open>Properties of the request handlers\<close>

subsection \<open>Decoding an encoded request\<close>

lemma unit_no_separator:
  "u \<in> {''kg'', ''g''} \<Longrightarrow> CHR '','' \<notin> set u \<and> CHR '';'' \<notin> set u"
  by auto

lemma split_entry:
  assumes "well_formed_entry e"
  shows "split CHR '','' (join CHR '','' (entry_fields e)) = entry_fields e"
proof (rule split_join)
  show "entry_fields e \<noteq> []" by (simp add: entry_fields_def)
  show "\<forall>w \<in> set (entry_fields e). CHR '','' \<notin> set w"
    using assms unit_no_separator [of "entry_unit e"]
    by (simp add: entry_fields_def well_formed_entry_def NumberToString_no_separator)
qed

lemma entry_no_semicolon:
  assumes "well_formed_entry e"
  shows "CHR '';'' \<notin> set (join CHR '','' (entry_fields e))"
  using assms unit_no_separator [of "entry_unit e"]
  by (simp add: entry_fields_def well_formed_entry_def NumberToString_no_separator)

lemma split_encode_calculate:
  assumes "es \<noteq> []" "\<forall>e \<in> set es. well_formed_entry e"
  shows "map (split CHR '','') (split CHR '';'' (encode_calculate es)) = map entry_fields es"
proof -
  have "split CHR '';'' (encode_calculate es) = map (\<lambda>e. join CHR '','' (entry_fields e)) es"
    unfolding encode_calculate_def using assms
    by (intro split_join) (simp_all add: entry_no_semicolon)
  then show ?thesis using assms(2) by (simp add: split_entry)
qed

lemma split_encode_query:
  "ids \<noteq> [] \<Longrightarrow> split CHR '','' (encode_query ids) = map NumberToString ids"
  unfolding encode_query_def
  by (intro split_join) (simp_all add: NumberToString_no_separator)

subsection \<open>One line and one row\<close>

lemma entry_elements:
  "element (entry_fields e) 0 = Some (NumberToString (entry_id e))"
  "element (entry_fields e) 1 = Some (quantity_text e)"
  "element (entry_fields e) (Suc 0) = Some (quantity_text e)"
  "element (entry_fields e) 2 = Some (entry_unit e)"
  by (simp_all add: element_def entry_fields_def)

lemma normalized_quantity:
  "well_formed_entry e \<Longrightarrow>
   normalizeWeight_number (Number (Some (quantity_text e))) (Some (entry_unit e))
   = Num (normalizeWeight (quantity e) (entry_unit e))"
  by (simp add: well_formed_entry_def normalizeWeight_number_def Number_def)

lemma handleCalculate_line_entry:
  assumes "well_formed_entry e" "items_by_id database (entry_id e) = Some item"
  shows "handleCalculate_line database (Num a) (entry_fields e) = Inr (Num (a + line_price item e))"
  using assms(2) normalized_quantity [OF assms(1)]
  by (simp add: handleCalculate_line_def entry_elements property_key_def items_by_id_def
      line_price_def Let_def)

lemma calculate_line_entry:
  assumes "well_formed_entry e" "database (entry_id e) = Some item"
  shows "calculate_line database (Num a) (entry_fields e) = Inr (Num (a + line_price item e))"
  using assms(2) normalized_quantity [OF assms(1)]
  by (simp add: calculate_line_def entry_elements parseInt_NumberToString getItem_def
      line_price_def Let_def)

lemma reduce_lines:
  assumes "\<And>a e. e \<in> set es \<Longrightarrow> f (Num a) (entry_fields e) = Inr (Num (a + g e))"
  shows "reduce f (Num a) (map entry_fields es) = Inr (Num (foldl (\<lambda>sum e. sum + g e) a es))"
  using assms by (induction es arbitrary: a) simp_all

lemma map_array_rows:
  assumes "\<And>x. x \<in> set xs \<Longrightarrow> f (h x) = Inr (g x)"
  shows "map_array f (map h xs) = Inr (map g xs)"
  using assms by (induction xs) simp_all

subsection \<open>A whole request\<close>

lemma handleCalculate_encoded:
  assumes "es \<noteq> []" "\<forall>e \<in> set es. well_formed_entry e"
    and "\<forall>e \<in> set es. items_by_id database (entry_id e) \<noteq> None"
  shows "handleCalculate database (encode_calculate es)
         = Inr (Num (preciseRound (request_total (items_by_id database) es)))"
proof -
  have "reduce (handleCalculate_line database) (Num 0) (map entry_fields es)
        = Inr (Num (request_total (items_by_id database) es))"
    unfolding request_total_def using assms(2,3)
    by (intro reduce_lines handleCalculate_line_entry) auto
  then show ?thesis
    by (simp add: handleCalculate_def split_encode_calculate [OF assms(1,2)])
qed

lemma calculate_encoded:
  assumes "es \<noteq> []" "\<forall>e \<in> set es. well_formed_entry e"
    and "\<forall>e \<in> set es. database (entry_id e) \<noteq> None"
  shows "calculate database (encode_calculate es)
         = Inr (Num (preciseRound (request_total database es)))"
proof -
  have "reduce (calculate_line database) (Num 0) (map entry_fields es)
        = Inr (Num (request_total database es))"
    unfolding request_total_def using assms(2,3)
    by (intro reduce_lines calculate_line_entry) auto
  then show ?thesis
    by (simp add: calculate_def split_encode_calculate [OF assms(1,2)])
qed

lemma handleQuery_encoded:
  assumes "ids \<noteq> []"
    and "\<forall>i \<in> set ids. bulkAdd new_DatabaseManager items i \<noteq> None"
  shows "handleQuery (createDatabase_of items) (encode_query ids)
         = Inr (map (\<lambda>i. price_row (the (bulkAdd new_DatabaseManager items i))) ids)"
proof -
  have "handleQuery_row (createDatabase_of items) (NumberToString i)
        = Inr (price_row (the (bulkAdd new_DatabaseManager items i)))" if mem: "i \<in> set ids" for i
  proof -
    obtain item where item: "bulkAdd new_DatabaseManager items i = Some item"
      using assms(2) mem by auto
    then have "createDatabase_of items (NumberToString i) = Some item"
      using items_by_id_createDatabase_of [of items] by (simp add: items_by_id_def fun_eq_iff)
    moreover have "id' item = i" using item by (rule bulkAdd_id)
    ultimately show ?thesis
      using item
      by (simp add: handleQuery_row_def price_row_def Number_def StringToNumber_NumberToString)
  qed
  then have "map_array (handleQuery_row (createDatabase_of items)) (map NumberToString ids)
             = Inr (map (\<lambda>i. price_row (the (bulkAdd new_DatabaseManager items i))) ids)"
    by (intro map_array_rows)
  then show ?thesis
    by (simp add: handleQuery_def split_encode_query [OF assms(1)])
qed

lemma query_encoded:
  assumes "ids \<noteq> []" and "\<forall>i \<in> set ids. database i \<noteq> None"
  shows "query database (encode_query ids) = Inr (map (\<lambda>i. price_row (the (database i))) ids)"
proof -
  have "query_row (getItem database (parseInt (Some (NumberToString i))))
        = Inr (price_row (the (database i)))" if "i \<in> set ids" for i
    using assms(2) that
    by (auto simp add: query_row_def price_row_def parseInt_NumberToString getItem_def)
  then have "map_array query_row
               (map (\<lambda>i. getItem database (parseInt (Some (NumberToString i)))) ids)
             = Inr (map (\<lambda>i. price_row (the (database i))) ids)"
    by (intro map_array_rows)
  then show ?thesis
    by (simp add: query_def split_encode_query [OF assms(1)] comp_def)
qed

section \<open>The claims about the request handlers\<close>

subsection \<open>The total of a calculate request\<close>

text \<open>
  Claim C2. For every well-formed calculate payload (entries \<open>id,quantity,unit\<close> separated
  by \<open>;\<close>, with a unit \<open>kg\<close> or \<open>g\<close>) whose ids are all in the catalog, both \<open>handleCalculate\<close>
  and \<open>SummaryAPI.calculate\<close> return \<open>preciseRound\<close> of the sum, over the entries in input
  order, of \<open>normalizePrice (unitPrice item) (unit item) * normalizeWeight quantity unit\<close>.
  \<open>request_total\<close> is that sum, added up from 0 in the order of the entries.
\<close>

theorem calculate_rounded_total:
  assumes "es \<noteq> []" and "\<forall>e \<in> set es. well_formed_entry e"
  shows "((\<forall>e \<in> set es. items_by_id database (entry_id e) \<noteq> None) \<longrightarrow>
            handleCalculate database (encode_calculate es)
            = Inr (Num (preciseRound (request_total (items_by_id database) es)))) \<and>
         ((\<forall>e \<in> set es. manager (entry_id e) \<noteq> None) \<longrightarrow>
            calculate manager (encode_calculate es)
            = Inr (Num (preciseRound (request_total manager es))))"
  using assms by (simp add: handleCalculate_encoded calculate_encoded)

theorem calculate_rounded_total_witness:
  "encode_calculate
     [\<lparr>entry_id = 5, quantity_text = ''2'', quantity = 2, entry_unit = ''kg''\<rparr>,
      \<lparr>entry_id = 7, quantity_text = ''3.5'', quantity = 3.5, entry_unit = ''g''\<rparr>,
      \<lparr>entry_id = 5, quantity_text = ''0.25'', quantity = 0.25, entry_unit = ''kg''\<rparr>]
   = ''5,2,kg;7,3.5,g;5,0.25,kg'' \<and>
   handleCalculate createDatabase ''5,2,kg;7,3.5,g;5,0.25,kg'' = Inr (Num 11.2) \<and>
   calculate (bulkAdd new_DatabaseManager catalogItems) ''5,2,kg;7,3.5,g;5,0.25,kg''
   = Inr (Num 11.2)"
proof -
  let ?es = "[\<lparr>entry_id = 5, quantity_text = ''2'', quantity = 2, entry_unit = ''kg''\<rparr>,
      \<lparr>entry_id = 7, quantity_text = ''3.5'', quantity = 3.5, entry_unit = ''g''\<rparr>,
      \<lparr>entry_id = 5, quantity_text = ''0.25'', quantity = 0.25, entry_unit = ''kg''\<rparr>]"
  let ?manager = "bulkAdd new_DatabaseManager catalogItems"
  have enc: "encode_calculate ?es = ''5,2,kg;7,3.5,g;5,0.25,kg''" by code_simp
  have ne: "?es \<noteq> []" by simp
  have wf: "\<forall>e \<in> set ?es. well_formed_entry e" by code_simp
  have js: "\<forall>e \<in> set ?es. items_by_id createDatabase (entry_id e) \<noteq> None" by code_simp
  have ts: "\<forall>e \<in> set ?es. ?manager (entry_id e) \<noteq> None" by code_simp
  have total_js: "preciseRound (request_total (items_by_id createDatabase) ?es) = 11.2"
    by code_simp
  have total_ts: "preciseRound (request_total ?manager ?es) = 11.2" by code_simp
  show ?thesis
    using calculate_rounded_total [OF ne wf, of createDatabase ?manager] js ts
    unfolding enc total_js total_ts by blast
qed

subsection \<open>The two scenarios\<close>

text \<open>
  Claim C3. With the catalog of the listings, \<open>calculate\<close> of
  \<open>1,1,kg;2,2,kg;3,0.15,kg;4,4,kg\<close> is 374.65 and \<open>calculate\<close> of \<open>9,10,kg;12,1,kg;16,400,g\<close>
  is 805.65, in both listings. The totals before rounding are 374.65 and 805.64.
\<close>

theorem calculate_scenarios:
  "handleCalculate createDatabase ''1,1,kg;2,2,kg;3,0.15,kg;4,4,kg'' = Inr (Num 374.65) \<and>
   handleCalculate createDatabase ''9,10,kg;12,1,kg;16,400,g'' = Inr (Num 805.65) \<and>
   calculate (bulkAdd new_DatabaseManager catalogItems) ''1,1,kg;2,2,kg;3,0.15,kg;4,4,kg''
   = Inr (Num 374.65) \<and>
   calculate (bulkAdd new_DatabaseManager catalogItems) ''9,10,kg;12,1,kg;16,400,g''
   = Inr (Num 805.65)"
  by code_simp

subsection \<open>The rows of a query\<close>

text \<open>
  Claim C6. For every list of ids separated by \<open>,\<close>, all in the catalog, \<open>query\<close> returns one
  row per id of the input, in the order of the input and with its repetitions: the row
  of the \<open>k\<close>-th id has the \<open>id\<close> of the item found for it as \<open>itemId\<close>, and
  \<open>normalizePrice (unitPrice item) (unit item)\<close> as \<open>kgPrice\<close>. \<open>handleQuery\<close> is stated for the
  object that \<open>createDatabase\<close> builds from any list of items, \<open>SummaryAPI.query\<close> for any
  \<open>DatabaseManager\<close>.
\<close>

theorem query_rows_in_order:
  assumes "ids \<noteq> []"
  shows "((\<forall>i \<in> set ids. items_by_id (createDatabase_of items) i \<noteq> None) \<longrightarrow>
            handleQuery (createDatabase_of items) (encode_query ids)
            = Inr (map (\<lambda>i. price_row (the (items_by_id (createDatabase_of items) i))) ids)) \<and>
         ((\<forall>i \<in> set ids. manager i \<noteq> None) \<longrightarrow>
            query manager (encode_query ids)
            = Inr (map (\<lambda>i. price_row (the (manager i))) ids))"
  using assms
  by (simp add: items_by_id_createDatabase_of handleQuery_encoded query_encoded)

theorem query_rows_in_order_witness:
  "encode_query [3, 1, 3, 16] = ''3,1,3,16'' \<and>
   handleQuery createDatabase ''3,1,3,16''
   = Inr [\<lparr>itemId = Num 3, kgPrice = 2350\<rparr>, \<lparr>itemId = Num 1, kgPrice = 1.45\<rparr>,
          \<lparr>itemId = Num 3, kgPrice = 2350\<rparr>, \<lparr>itemId = Num 16, kgPrice = 1780\<rparr>] \<and>
   query (bulkAdd new_DatabaseManager catalogItems) ''3,1,3,16''
   = Inr [\<lparr>itemId = Num 3, kgPrice = 2350\<rparr>, \<lparr>itemId = Num 1, kgPrice = 1.45\<rparr>,
          \<lparr>itemId = Num 3, kgPrice = 2350\<rparr>, \<lparr>itemId = Num 16, kgPrice = 1780\<rparr>]"
proof -
  let ?ids = "[3, 1, 3, 16] :: int list"
  let ?manager = "bulkAdd new_DatabaseManager catalogItems"
  let ?rows = "[\<lparr>itemId = Num 3, kgPrice = 2350\<rparr>, \<lparr>itemId = Num 1, kgPrice = 1.45\<rparr>,
          \<lparr>itemId = Num 3, kgPrice = 2350\<rparr>, \<lparr>itemId = Num 16, kgPrice = 1780\<rparr>]"
  have enc: "encode_query ?ids = ''3,1,3,16''" by code_simp
  have ne: "?ids \<noteq> []" by simp
  have js: "\<forall>i \<in> set ?ids. items_by_id (createDatabase_of catalogItems) i \<noteq> None" by code_simp
  have ts: "\<forall>i \<in> set ?ids. ?manager i \<noteq> None" by code_simp
  have rows_js:
    "map (\<lambda>i. price_row (the (items_by_id (createDatabase_of catalogItems) i))) ?ids = ?rows"
    by code_simp
  have rows_ts: "map (\<lambda>i. price_row (the (?manager i))) ?ids = ?rows" by code_simp
  show ?thesis
    using query_rows_in_order [OF ne, of catalogItems ?manager] js ts
    unfolding enc rows_js rows_ts createDatabase_def by blast
qed

subsection \<open>The dispatcher\<close>

text \<open>
  Claim C7. For every envelope, \<open>process\<close> (and \<open>summaryApi\<close>) returns what \<open>calculate\<close>
  returns on \<open>datas\<close> when the action is \<open>calculate\<close>, what \<open>query\<close> returns when it is \<open>query\<close>,
  and for every other action it returns \<open>undefined\<close> and throws nothing.
\<close>

theorem process_dispatch:
  "(action largeData = ''calculate'' \<longrightarrow>
      summaryApi database largeData
      = map_sum (\<lambda>e. e) Total (handleCalculate database (datas largeData)) \<and>
      process manager largeData
      = map_sum (\<lambda>e. e) Total (calculate manager (datas largeData))) \<and>
   (action largeData = ''query'' \<longrightarrow>
      summaryApi database largeData
      = map_sum (\<lambda>e. e) Rows (handleQuery database (datas largeData)) \<and>
      process manager largeData
      = map_sum (\<lambda>e. e) Rows (query manager (datas largeData))) \<and>
   (action largeData \<noteq> ''calculate'' \<and> action largeData \<noteq> ''query'' \<longrightarrow>
      summaryApi database largeData = Inr Undefined \<and>
      process manager largeData = Inr Undefined)"
  by (auto simp add: summaryApi_def process_def split: sum.splits)

theorem process_dispatch_witness:
  "summaryApi createDatabase \<lparr>action = ''calculate'', datas = ''1,1,kg''\<rparr>
   = map_sum (\<lambda>e. e) Total (handleCalculate createDatabase ''1,1,kg'') \<and>
   process new_DatabaseManager \<lparr>action = ''query'', datas = ''1''\<rparr>
   = map_sum (\<lambda>e. e) Rows (query new_DatabaseManager ''1'') \<and>
   summaryApi createDatabase \<lparr>action = ''delete'', datas = ''1''\<rparr> = Inr Undefined \<and>
   process new_DatabaseManager \<lparr>action = ''delete'', datas = ''1''\<rparr> = Inr Undefined"
  using process_dispatch [of "\<lparr>action = ''calculate'', datas = ''1,1,kg''\<rparr>" createDatabase new_DatabaseManager]
    process_dispatch [of "\<lparr>action = ''query'', datas = ''1''\<rparr>" createDatabase new_DatabaseManager]
    process_dispatch [of "\<lparr>action = ''delete'', datas = ''1''\<rparr>" createDatabase new_DatabaseManager]
  by simp

subsection \<open>The two listings\<close>

text \<open>
  Claim C8. The \<open>DatabaseManager\<close> with \<open>SummaryAPI\<close> and the plain object with \<open>summaryApi\<close>
  are equivalent: on every envelope whose payload is well formed and whose ids are all
  in the catalog, \<open>summaryApi\<close> over the object built from a list of items and \<open>process\<close>
  over the \<open>DatabaseManager\<close> filled with the same list return equal results.
\<close>

theorem variants_equivalent:
  assumes "well_formed_request (bulkAdd new_DatabaseManager items) r"
  shows "summaryApi (createDatabase_of items) (envelope r)
         = process (bulkAdd new_DatabaseManager items) (envelope r)"
proof (cases r)
  case (Calculate es)
  then have es: "es \<noteq> []" "\<forall>e \<in> set es. well_formed_entry e"
    "\<forall>e \<in> set es. bulkAdd new_DatabaseManager items (entry_id e) \<noteq> None"
    using assms by (simp_all add: list_all_iff)
  have "handleCalculate (createDatabase_of items) (encode_calculate es)
        = calculate (bulkAdd new_DatabaseManager items) (encode_calculate es)"
    using es
    by (simp add: handleCalculate_encoded calculate_encoded items_by_id_createDatabase_of)
  then show ?thesis using Calculate by (simp add: summaryApi_def process_def)
next
  case (Query ids)
  then have ids: "ids \<noteq> []" "\<forall>i \<in> set ids. bulkAdd new_DatabaseManager items i \<noteq> None"
    using assms by (simp_all add: list_all_iff)
  have "handleQuery (createDatabase_of items) (encode_query ids)
        = query (bulkAdd new_DatabaseManager items) (encode_query ids)"
    using ids by (simp add: handleQuery_encoded query_encoded)
  then show ?thesis using Query by (simp add: summaryApi_def process_def)
next
  case (Other a d)
  then show ?thesis using assms by (simp add: summaryApi_def process_def)
qed

theorem variants_equivalent_witness:
  "summaryApi createDatabase \<lparr>action = ''calculate'', datas = ''9,10,kg;12,1,kg;16,400,g''\<rparr>
   = process (bulkAdd new_DatabaseManager catalogItems)
       \<lparr>action = ''calculate'', datas = ''9,10,kg;12,1,kg;16,400,g''\<rparr> \<and>
   summaryApi createDatabase \<lparr>action = ''query'', datas = ''1,2,3,4''\<rparr>
   = process (bulkAdd new_DatabaseManager catalogItems) \<lparr>action = ''query'', datas = ''1,2,3,4''\<rparr> \<and>
   summaryApi createDatabase \<lparr>action = ''delete'', datas = ''1''\<rparr>
   = process (bulkAdd new_DatabaseManager catalogItems) \<lparr>action = ''delete'', datas = ''1''\<rparr>"
proof -
  let ?c = "Calculate
     [\<lparr>entry_id = 9, quantity_text = ''10'', quantity = 10, entry_unit = ''kg''\<rparr>,
      \<lparr>entry_id = 12, quantity_text = ''1'', quantity = 1, entry_unit = ''kg''\<rparr>,
      \<lparr>entry_id = 16, quantity_text = ''400'', quantity = 400, entry_unit = ''g''\<rparr>]"
  let ?q = "Query [1, 2, 3, 4]"
  let ?o = "Other ''delete'' ''1''"
  let ?manager = "bulkAdd new_DatabaseManager catalogItems"
  have wf: "well_formed_request ?manager ?c" "well_formed_request ?manager ?q"
    "well_formed_request ?manager ?o"
    by code_simp+
  have env: "envelope ?c = \<lparr>action = ''calculate'', datas = ''9,10,kg;12,1,kg;16,400,g''\<rparr>"
    "envelope ?q = \<lparr>action = ''query'', datas = ''1,2,3,4''\<rparr>"
    "envelope ?o = \<lparr>action = ''delete'', datas = ''1''\<rparr>"
    by code_simp+
  show ?thesis
    using variants_equivalent [OF wf(1)] variants_equivalent [OF wf(2)]
      variants_equivalent [OF wf(3)]
    unfolding env createDatabase_def by blast
qed

text \<open>
  The ids of a well-formed request are written as the language prints a number, and
  those are the keys of the plain object. A token that only \<open>parseInt\<close> reads as an id is
  not such a key: on \<open>01\<close> the plain object has no item and \<open>handleQuery\<close> throws, while
  \<open>SummaryAPI.query\<close> finds item 1.
\<close>

lemma variants_differ_on_leading_zero:
  "handleQuery createDatabase ''01'' = Inl TypeError \<and>
   query (bulkAdd new_DatabaseManager catalogItems) ''01''
   = Inr [\<lparr>itemId = Num 1, kgPrice = 1.45\<rparr>]"
  by code_simp

end
